theory Spec2Isabelle
  imports Complex_Main
begin

section \<open>Python values, exceptions and builtins\<close>

text \<open>
  Python floats are modelled as real numbers, Python exceptions as values of
  \<open>py_error\<close>; a function that can raise returns \<open>py_error + 'a\<close> with
  \<open>Inl\<close> for the exception.
\<close>

datatype py_error =
  NameError string
  | AttributeError
  | ZeroDivisionError
  | KeyError string

text \<open>\<^verbatim>\<open>s.startswith(p)\<close>\<close>

definition startswith :: "string \<Rightarrow> string \<Rightarrow> bool" where
  "startswith s p \<longleftrightarrow> take (length p) s = p"

text \<open>
  \<^verbatim>\<open>round(x, n)\<close> on a float: the nearest multiple of \<open>10^-n\<close>, a tie going to the
  even one.
\<close>

definition round_half_even :: "real \<Rightarrow> int" where
  "round_half_even y =
     (let f = \<lfloor>y\<rfloor>; d = y - of_int f
      in if d < 1 / 2 then f
         else if 1 / 2 < d then f + 1
         else if even f then f else f + 1)"

definition py_round :: "real \<Rightarrow> nat \<Rightarrow> real" where
  "py_round x n = of_int (round_half_even (x * 10 ^ n)) / 10 ^ n"

subsection \<open>The \<^verbatim>\<open>statistics\<close> functions the program calls\<close>

text \<open>
  Every call of \<^verbatim>\<open>mean\<close> and \<^verbatim>\<open>pstdev\<close> in the program is on a list the
  caller has checked to be non-empty, every call of \<^verbatim>\<open>stdev\<close> on a list checked to
  hold at least two values, so their StatisticsError is not modelled.
\<close>

definition mean :: "real list \<Rightarrow> real" where
  "mean xs = sum_list xs / real (length xs)"

definition sq_dev :: "real list \<Rightarrow> real" where
  "sq_dev xs = (\<Sum>x\<leftarrow>xs. (x - mean xs)\<^sup>2)"

definition stdev :: "real list \<Rightarrow> real" where
  "stdev xs = sqrt (sq_dev xs / real (length xs - 1))"

definition pstdev :: "real list \<Rightarrow> real" where
  "pstdev xs = sqrt (sq_dev xs / real (length xs))"

text \<open>
  \<^verbatim>\<open>statistics.linear_regression(x, y).slope\<close> and \<^verbatim>\<open>statistics.correlation(x, y)\<close>:
  both raise StatisticsError, a ValueError, when the lengths differ, when there are
  fewer than two points or when an input they divide by is constant; \<open>None\<close> stands
  for that exception.
\<close>

definition cross_dev :: "real list \<Rightarrow> real list \<Rightarrow> real" where
  "cross_dev xs ys = (\<Sum>(x, y)\<leftarrow>zip xs ys. (x - mean xs) * (y - mean ys))"

definition linear_regression_slope :: "real list \<Rightarrow> real list \<Rightarrow> real option" where
  "linear_regression_slope xs ys =
     (if length xs = length ys \<and> 2 \<le> length xs \<and> 0 < sq_dev xs
      then Some (cross_dev xs ys / sq_dev xs) else None)"

definition correlation :: "real list \<Rightarrow> real list \<Rightarrow> real option" where
  "correlation xs ys =
     (if length xs = length ys \<and> 2 \<le> length xs \<and> 0 < sq_dev xs * sq_dev ys
      then Some (cross_dev xs ys / sqrt (sq_dev xs * sq_dev ys)) else None)"

section \<open>measurements.py: the shape classifier\<close>

text \<open>
  A sample is \<^verbatim>\<open>(time_offset, mbps_at_interval)\<close>.

  \<^verbatim>\<open>analyze_shape\<close> reads the name \<^verbatim>\<open>times\<close> in its regression branch. The first
  argument of \<open>analyze_shape_in\<close> is what that name is bound to, \<open>None\<close> when it is
  unbound, in which case reading it raises NameError; the \<^verbatim>\<open>except\<close> clause catches
  only AttributeError and ValueError, so the NameError leaves the function.
\<close>

type_synonym sample = "real \<times> real"

definition analyze_shape_in :: "real list option \<Rightarrow> sample list \<Rightarrow> py_error + string" where
  "analyze_shape_in times_binding samples =
     (if length samples < 4 then Inr ''uncertain''
      else
        let mbps_values = map snd samples;
            steady_state = drop (length mbps_values div 4) mbps_values
        in if steady_state = [] then Inr ''uncertain''
           else
             let avg = mean steady_state
             in if avg < 0.1 then Inr ''uncertain''
                else
                  let var = (if 1 < length steady_state then stdev steady_state else 0);
                      cv = var / avg
                  in if cv < 0.15 then Inr ''plateau''
                     else
                       (case times_binding of
                          None \<Rightarrow> Inl (NameError ''times'')
                        | Some time_axis \<Rightarrow>
                            (case linear_regression_slope time_axis mbps_values of
                               None \<Rightarrow> Inr ''logarithmic''
                             | Some slope \<Rightarrow>
                                 (case correlation time_axis mbps_values of
                                    None \<Rightarrow> Inr ''logarithmic''
                                  | Some corr \<Rightarrow>
                                      if 0.8 < corr \<and> 0 < slope then Inr ''linear_climb''
                                      else Inr ''logarithmic''))))"

text \<open>
  measurements.py assigns \<^verbatim>\<open>times\<close> nowhere, neither in \<^verbatim>\<open>analyze_shape\<close> nor at
  module level, and it is no builtin: the name is unbound when the function runs.
\<close>

definition analyze_shape :: "sample list \<Rightarrow> py_error + string" where
  "analyze_shape samples = analyze_shape_in None samples"

section \<open>forensics.py: the diagnosis engine\<close>

text \<open>
  The signal dictionary as the program reads it; a field is \<open>None\<close> when the key is
  missing or its value is \<^verbatim>\<open>None\<close> (\<^verbatim>\<open>dict.get\<close> returns \<^verbatim>\<open>None\<close> for both).
\<close>

record signal =
  band :: string
  pci :: string
  enodeb :: string
  sinr :: "real option"
  rsrq :: "real option"
  rsrp :: "real option"
  score :: "real option"

text \<open>The network dictionary; a field is \<open>None\<close> when its key is missing.\<close>

record network_data =
  nd_down_mbps :: "real option"
  nd_latency :: "real option"
  nd_jitter :: "real option"
  nd_packet_loss :: "real option"
  nd_ramp_up_ratio :: "real option"
  nd_consistency_score :: "real option"
  nd_latency_under_load_diff :: "real option"
  nd_shapes :: "string list option"

record history =
  is_stable_hour :: bool
  policy_count :: nat
  monthly_bytes :: real

record metrics =
  rf_score :: "real option"
  down_mbps :: real
  latency :: real
  jitter :: real
  packet_loss :: real
  ramp_up :: real
  consistency :: real
  latency_diff :: real
  shapes :: "string list"

record diagnosis =
  radio_likelihood :: real
  congestion_likelihood :: real
  policy_likelihood :: real
  verdict :: string
  consistency_score :: real

definition RADIO_THRESHOLD_TERRIBLE :: real where "RADIO_THRESHOLD_TERRIBLE = 30"
definition RADIO_THRESHOLD_BAD :: real where "RADIO_THRESHOLD_BAD = 50"
definition RADIO_THRESHOLD_MED :: real where "RADIO_THRESHOLD_MED = 70"
definition RADIO_THRESHOLD_GOOD :: real where "RADIO_THRESHOLD_GOOD = 85"
definition JITTER_THRESHOLD_HIGH :: real where "JITTER_THRESHOLD_HIGH = 30"
definition PACKET_LOSS_THRESHOLD :: real where "PACKET_LOSS_THRESHOLD = 2"
definition SPEED_THRESHOLD_FAST :: real where "SPEED_THRESHOLD_FAST = 50"
definition SPEED_THRESHOLD_SLOW :: real where "SPEED_THRESHOLD_SLOW = 10"
definition RAMP_UP_THRESHOLD :: real where "RAMP_UP_THRESHOLD = 1.2"

text \<open>
  \<^verbatim>\<open>_extract_metrics\<close>: \<^verbatim>\<open>signal_data\<close> is guarded (\<^verbatim>\<open>if signal_data else None\<close>),
  \<^verbatim>\<open>network_data.get\<close> is not, so a \<^verbatim>\<open>None\<close> network raises AttributeError.
\<close>

definition extract_metrics :: "signal option \<Rightarrow> network_data option \<Rightarrow> py_error + metrics" where
  "extract_metrics signal_data network =
     (case network of
        None \<Rightarrow> Inl AttributeError
      | Some nd \<Rightarrow> Inr \<lparr>
          rf_score = (case signal_data of None \<Rightarrow> None | Some sd \<Rightarrow> score sd),
          down_mbps = (case nd_down_mbps nd of None \<Rightarrow> 0 | Some v \<Rightarrow> v),
          latency = (case nd_latency nd of None \<Rightarrow> 0 | Some v \<Rightarrow> v),
          jitter = (case nd_jitter nd of None \<Rightarrow> 0 | Some v \<Rightarrow> v),
          packet_loss = (case nd_packet_loss nd of None \<Rightarrow> 0 | Some v \<Rightarrow> v),
          ramp_up = (case nd_ramp_up_ratio nd of None \<Rightarrow> 1.0 | Some v \<Rightarrow> v),
          consistency = (case nd_consistency_score nd of None \<Rightarrow> 0.5 | Some v \<Rightarrow> v),
          latency_diff = (case nd_latency_under_load_diff nd of None \<Rightarrow> 0 | Some v \<Rightarrow> v),
          shapes = (case nd_shapes nd of None \<Rightarrow> [] | Some v \<Rightarrow> v)\<rparr>)"

definition calculate_radio :: "real option \<Rightarrow> real" where
  "calculate_radio rf =
     (case rf of
        None \<Rightarrow> 0.1
      | Some s \<Rightarrow>
          if s < RADIO_THRESHOLD_TERRIBLE then 0.95
          else if s < RADIO_THRESHOLD_BAD then 0.8
          else if s < RADIO_THRESHOLD_MED then 0.4
          else if RADIO_THRESHOLD_GOOD < s then 0.05
          else 0.0)"

definition calculate_congestion :: "metrics \<Rightarrow> real" where
  "calculate_congestion m =
     (let score0 = (0.0 :: real);
          score1 = (if 50 < latency_diff m then score0 + 0.4
                    else if 20 < latency_diff m then score0 + 0.2 else score0);
          score2 = (if JITTER_THRESHOLD_HIGH < jitter m then score1 + 0.3 else score1);
          score3 = (if PACKET_LOSS_THRESHOLD < packet_loss m then score2 + 0.2 else score2);
          score4 = (if ''linear_climb'' \<in> set (shapes m) then score3 + 0.2 else score3);
          score5 = (if SPEED_THRESHOLD_FAST < down_mbps m then score4 * 0.1 else score4)
      in min 1.0 score5)"

definition calculate_policy :: "metrics \<Rightarrow> history option \<Rightarrow> real" where
  "calculate_policy m hist =
     (let is_slow = (down_mbps m < SPEED_THRESHOLD_SLOW);
          score0 = (0.0 :: real);
          score1 = (if 0.8 < consistency m then score0 + 0.5
                    else if 0.6 < consistency m then score0 + 0.3 else score0);
          plateau_count = count_list (shapes m) ''plateau'';
          score2 = (if 2 \<le> plateau_count then score1 + 0.4
                    else if plateau_count = 1 then score1 + 0.2 else score1);
          score3 = (if (case hist of None \<Rightarrow> False | Some h \<Rightarrow> is_stable_hour h)
                    then score2 + 0.3 else score2);
          score4 = (if RAMP_UP_THRESHOLD < ramp_up m then score3 + 0.1 else score3);
          score5 = (if \<not> is_slow then score4 * 0.5 else score4)
      in min 1.0 score5)"

definition apply_counter_evidence :: "real \<Rightarrow> metrics \<Rightarrow> real" where
  "apply_counter_evidence policy_score m =
     (let p1 = (if 100 < jitter m then policy_score * 0.5 else policy_score);
          p2 = (if 200 < latency_diff m then p1 * 0.6 else p1);
          p3 = (case rf_score m of
                  None \<Rightarrow> p2
                | Some s \<Rightarrow> if s < 40 then p2 * 0.4 else p2)
      in p3)"

definition is_confident :: "history option \<Rightarrow> bool" where
  "is_confident hist = (case hist of None \<Rightarrow> False | Some h \<Rightarrow> 3 \<le> policy_count h)"

definition normalize :: "real \<Rightarrow> real \<Rightarrow> real \<Rightarrow> real \<Rightarrow> real \<times> real \<times> real" where
  "normalize r c p tot = (let factor = 0.95 / tot in (r * factor, c * factor, p * factor))"

definition get_verdict :: "real \<Rightarrow> real \<Rightarrow> real \<Rightarrow> string" where
  "get_verdict r c p =
     (let mx = max r (max c p)
      in if mx < 0.4 then ''Inconclusive / Gathering Data''
         else if r = mx then ''Radio Impairment Likely''
         else if c = mx then ''Congestion Indicators Present''
         else if p = mx then ''Policy-Like Pattern Detected''
         else ''Mixed Signals'')"

text \<open>
  \<^verbatim>\<open>analyze\<close>, lines 22 to 26: the three scores before the cap; lines 28 to 30: the cap.
\<close>

definition raw_likelihoods :: "metrics \<Rightarrow> history option \<Rightarrow> real \<times> real \<times> real" where
  "raw_likelihoods m hist =
     (let radio = calculate_radio (rf_score m);
          congestion = calculate_congestion m;
          policy = calculate_policy m hist;
          policy = apply_counter_evidence policy m
      in (radio, congestion, policy))"

definition capped_likelihoods :: "real \<times> real \<times> real \<Rightarrow> real \<times> real \<times> real" where
  "capped_likelihoods rcp =
     (case rcp of (radio, congestion, policy) \<Rightarrow>
        let tot = radio + congestion + policy
        in if 0.95 < tot then normalize radio congestion policy tot
           else (radio, congestion, policy))"

definition analyze :: "signal option \<Rightarrow> network_data option \<Rightarrow> history option \<Rightarrow> py_error + diagnosis" where
  "analyze signal_data network hist =
     (case extract_metrics signal_data network of
        Inl e \<Rightarrow> Inl e
      | Inr m \<Rightarrow>
          (case capped_likelihoods (raw_likelihoods m hist) of (radio, congestion, policy) \<Rightarrow>
             let v = get_verdict radio congestion policy;
                 v = (if startswith v ''Policy'' \<and> \<not> is_confident hist
                      then ''Observed, low confidence'' else v)
             in Inr \<lparr>radio_likelihood = py_round radio 2,
                     congestion_likelihood = py_round congestion 2,
                     policy_likelihood = py_round policy 2,
                     verdict = v,
                     consistency_score = consistency m\<rparr>))"

section \<open>measurements.py: the throughput probe\<close>

text \<open>The dictionary \<^verbatim>\<open>run_ping\<close> returns (target and timestamp left out).\<close>

record ping_stats =
  min_rtt :: real
  max_rtt :: real
  avg_rtt :: real
  ping_packet_loss :: real
  ping_jitter :: real

text \<open>
  What one download did, as the network decided it: it raised inside the \<^verbatim>\<open>try\<close>
  block, or it ended with a byte count, the half-second samples and the wall-clock time
  measured after the loop.
\<close>

datatype download_outcome =
  Failed
  | Finished nat "sample list" real

record dl_res =
  mbps :: real
  samples :: "sample list"
  shape :: string
  total_bytes :: nat

record probed = dl_res +
  ping_during :: "real list"

text \<open>
  \<^verbatim>\<open>run_single_download\<close>: the result dictionary is built after the \<^verbatim>\<open>try\<close> block, so
  an exception of \<^verbatim>\<open>analyze_shape\<close> is not caught here.
\<close>

definition run_single_download :: "download_outcome \<Rightarrow> py_error + dl_res option" where
  "run_single_download outcome =
     (case outcome of
        Failed \<Rightarrow> Inr None
      | Finished nbytes smpls elapsed \<Rightarrow>
          let total_time = (if elapsed < 0.1 then 0.1 else elapsed);
              avg_mbps = (real nbytes * 8) / (total_time * 1000000)
          in (case analyze_shape smpls of
                Inl e \<Rightarrow> Inl e
              | Inr sh \<Rightarrow>
                  Inr (Some \<lparr>mbps = avg_mbps, samples = smpls, shape = sh, total_bytes = nbytes\<rparr>)))"

text \<open>
  One target of the probe: its download and what the ping thread appended meanwhile
  (\<^verbatim>\<open>None\<close> for a ping without a reply).
\<close>

record target_run =
  download :: download_outcome
  ping_rtts :: "real option list"

text \<open>
  The loop over the targets. It appends to \<^verbatim>\<open>results\<close> and \<^verbatim>\<open>mbps_vals\<close> and adds to
  \<^verbatim>\<open>total_dl_bytes\<close> at the same place, so the last two are read off the list of results.
\<close>

fun download_targets :: "target_run list \<Rightarrow> py_error + probed list" where
  "download_targets [] = Inr []"
| "download_targets (t # ts) =
     (case run_single_download (download t) of
        Inl e \<Rightarrow> Inl e
      | Inr dl \<Rightarrow>
          (case download_targets ts of
             Inl e \<Rightarrow> Inl e
           | Inr rest \<Rightarrow>
               (case dl of
                  None \<Rightarrow> Inr rest
                | Some r \<Rightarrow>
                    Inr (dl_res.extend r
                           \<lparr>ping_during = map the (filter (\<lambda>r. r \<noteq> None) (ping_rtts t))\<rparr>
                         # rest))))"

record aggregated_metrics =
  am_download_mbps :: real
  am_upload_mbps :: real
  am_ramp_up_ratio :: real
  am_consistency_score :: real
  am_shapes :: "string list"
  am_latency_under_load_diff :: real
  am_total_bytes :: nat

text \<open>
  \<^verbatim>\<open>run_forensic_download\<close>, given the baseline ping and what each target did (the
  program has three targets). Its body is one \<^verbatim>\<open>try\<close> block whose handler returns
  \<^verbatim>\<open>None\<close> for every exception.
\<close>

definition run_forensic_download ::
    "ping_stats option \<Rightarrow> target_run list \<Rightarrow> aggregated_metrics option" where
  "run_forensic_download ping_before runs =
     (let base_latency = (case ping_before of None \<Rightarrow> 0 | Some p \<Rightarrow> avg_rtt p)
      in case download_targets runs of
           Inl e \<Rightarrow> None
         | Inr results \<Rightarrow>
             if results = [] then None
             else
               let mbps_vals = map mbps results;
                   total_dl_bytes = sum_list (map total_bytes results);
                   avg_mbps = mean mbps_vals;
                   cons =
                     (if 1 < length mbps_vals
                      then let cv = (if 0 < avg_mbps then stdev mbps_vals / avg_mbps else 0)
                           in max 0.0 (1.0 - cv * 2)
                      else 1.0);
                   all_during_pings = concat (map ping_during results);
                   diff =
                     (if all_during_pings \<noteq> [] then mean all_during_pings - base_latency
                      else 0);
                   first_success = hd results;
                   ramp =
                     (if shape first_success = ''plateau'' then 1.0
                      else if shape first_success = ''linear_climb'' then 0.5
                      else 1.5)
               in Some \<lparr>am_download_mbps = py_round avg_mbps 2,
                        am_upload_mbps = 0,
                        am_ramp_up_ratio = ramp,
                        am_consistency_score = cons,
                        am_shapes = map shape results,
                        am_latency_under_load_diff = diff,
                        am_total_bytes = total_dl_bytes\<rparr>)"

text \<open>The dictionary \<^verbatim>\<open>run_speedtest\<close> returns (server fields and timestamp left out).\<close>

record speedtest_result =
  st_download_mbps :: real
  st_upload_mbps :: real
  st_ramp_up_ratio :: real
  st_ping_latency :: real
  st_packet_loss :: real

section \<open>main.py: history analysis\<close>

text \<open>
  A cell of the log as \<^verbatim>\<open>float\<close> meets it: \<open>Blank\<close> is \<^verbatim>\<open>None\<close> or the empty
  string, \<open>Junk\<close> a text \<^verbatim>\<open>float\<close> rejects with ValueError, \<open>Num x\<close> a text it reads
  as \<open>x\<close>. A timestamp cell likewise, for \<^verbatim>\<open>datetime.fromisoformat\<close>. A datetime is
  a number of seconds on the local clock, so \<^verbatim>\<open>(a - b).days\<close> is the floor of the
  difference in days and \<^verbatim>\<open>dt.hour\<close> the hour within the day. The verdict cell is
  \<open>None\<close> for a row shorter than the header, where \<^verbatim>\<open>csv.DictReader\<close> fills in
  \<^verbatim>\<open>None\<close>.
\<close>

datatype cell = Blank | Junk | Num real

datatype stamp = NoStamp | BadStamp | Stamp real

record log_row =
  timestamp :: stamp
  data_bytes :: cell
  avg_score :: cell
  row_verdict :: "string option"

record row_res =
  res_bytes :: real
  res_score :: "real option"
  res_policy :: bool

definition td_days :: "real \<Rightarrow> real \<Rightarrow> int" where
  "td_days a b = \<lfloor>(a - b) / 86400\<rfloor>"

definition hour_of :: "real \<Rightarrow> int" where
  "hour_of dt = \<lfloor>dt / 3600\<rfloor> mod 24"

text \<open>
  \<^verbatim>\<open>_process_row\<close>: a ValueError leaves the \<^verbatim>\<open>try\<close> block with what \<^verbatim>\<open>res\<close> holds by
  then; the AttributeError of \<^verbatim>\<open>None.startswith\<close> is not caught.
\<close>

definition process_row :: "log_row \<Rightarrow> real \<Rightarrow> int \<Rightarrow> real \<Rightarrow> py_error + row_res" where
  "process_row row now_dt current_hour recent_cutoff =
     (let res = \<lparr>res_bytes = 0, res_score = None, res_policy = False\<rparr>
      in case timestamp row of
           NoStamp \<Rightarrow> Inr res
         | BadStamp \<Rightarrow> Inr res
         | Stamp dt \<Rightarrow>
             (case (if td_days now_dt dt \<le> 30
                    then (case data_bytes row of
                            Blank \<Rightarrow> Some 0 | Junk \<Rightarrow> None | Num x \<Rightarrow> Some x)
                    else Some (res_bytes res)) of
                None \<Rightarrow> Inr res
              | Some b \<Rightarrow>
                  let res = res\<lparr>res_bytes := b\<rparr>
                  in if recent_cutoff < dt then
                       (case (if hour_of dt = current_hour
                              then (case avg_score row of
                                      Blank \<Rightarrow> Some (res_score res)
                                    | Junk \<Rightarrow> None
                                    | Num x \<Rightarrow> Some (Some x))
                              else Some (res_score res)) of
                          None \<Rightarrow> Inr res
                        | Some sc \<Rightarrow>
                            let res = res\<lparr>res_score := sc\<rparr>
                            in (case row_verdict row of
                                  None \<Rightarrow> Inl AttributeError
                                | Some v \<Rightarrow>
                                    Inr (if startswith v ''Policy''
                                         then res\<lparr>res_policy := True\<rparr> else res)))
                     else Inr res))"

text \<open>The log file: absent, present but failing to open or parse, or its rows.\<close>

datatype log_store = Missing | Unreadable | Rows "log_row list"

definition neutral_history :: history where
  "neutral_history = \<lparr>is_stable_hour = False, policy_count = 0, monthly_bytes = 0\<rparr>"

text \<open>The loop of \<^verbatim>\<open>get_history_analysis\<close> over its three accumulators.\<close>

fun scan_rows ::
    "real \<Rightarrow> log_row list \<Rightarrow> real list \<times> nat \<times> real \<Rightarrow> py_error + (real list \<times> nat \<times> real)" where
  "scan_rows now_dt [] acc = Inr acc"
| "scan_rows now_dt (r # rs) (hour_scores, pcount, mbytes) =
     (case process_row r now_dt (hour_of now_dt) (now_dt - 7 * 24 * 3600) of
        Inl e \<Rightarrow> Inl e
      | Inr p \<Rightarrow>
          scan_rows now_dt rs
            (case res_score p of None \<Rightarrow> hour_scores | Some x \<Rightarrow> hour_scores @ [x],
             if res_policy p then pcount + 1 else pcount,
             mbytes + res_bytes p))"

definition get_history_analysis :: "log_store \<Rightarrow> real \<Rightarrow> history" where
  "get_history_analysis st now_dt =
     (case st of
        Missing \<Rightarrow> neutral_history
      | Unreadable \<Rightarrow> neutral_history
      | Rows rows \<Rightarrow>
          (case scan_rows now_dt rows ([], 0, 0) of
             Inl e \<Rightarrow> neutral_history
           | Inr (hour_scores, pcount, mbytes) \<Rightarrow>
               \<lparr>is_stable_hour = (5 < length hour_scores \<and> pstdev hour_scores < 10),
                policy_count = pcount,
                monthly_bytes = mbytes\<rparr>))"

text \<open>
  The specification's reading of a same-hour score sample: a row with a valid timestamp
  within the last seven days, at the current hour of day, that is well-formed and carries
  a score.
\<close>

definition same_hour_sample :: "real \<Rightarrow> log_row \<Rightarrow> real option" where
  "same_hour_sample now_dt r =
     (case timestamp r of
        Stamp dt \<Rightarrow>
          (if now_dt - 7 * 24 * 3600 < dt \<and> hour_of dt = hour_of now_dt \<and> data_bytes r \<noteq> Junk
           then (case avg_score r of Num x \<Rightarrow> Some x | _ \<Rightarrow> None)
           else None)
      | _ \<Rightarrow> None)"

definition same_hour_scores :: "real \<Rightarrow> log_row list \<Rightarrow> real list" where
  "same_hour_scores now_dt rows = List.map_filter (same_hour_sample now_dt) rows"

section \<open>main.py: the orchestrator\<close>

definition WINDOW_SECONDS :: real where "WINDOW_SECONDS = 90"
definition MIN_SAMPLES :: nat where "MIN_SAMPLES = 5"
definition MAX_DAILY_tests :: nat where "MAX_DAILY_tests = 12"
definition PSI_TRIGGER_THRESHOLD :: real where "PSI_TRIGGER_THRESHOLD = 50"
definition BASELINE_INTERVAL_SECONDS :: real where "BASELINE_INTERVAL_SECONDS = 4 * 3600"

definition calculate_simple_psi :: "real option \<Rightarrow> real \<Rightarrow> real \<Rightarrow> real" where
  "calculate_simple_psi rf_sc down latency_avg =
     (let rf = (case rf_sc of None \<Rightarrow> 50 | Some v \<Rightarrow> v);
          speed_score = max 0 (min 100 ((down / 30.0) * 100));
          lat_pen = (if latency_avg \<noteq> 0 \<and> 100 < latency_avg then (latency_avg - 100) / 5.0 else 0)
      in max 0 (min 100 (rf - speed_score + lat_pen)))"

text \<open>
  What \<^verbatim>\<open>run_forensic_download(duration=10) or run_speedtest()\<close> yields: the forensic
  measurement or the speedtest dictionary, both non-empty and so true as a condition.
\<close>

datatype speed_result = Forensic aggregated_metrics | Speedtest speedtest_result

text \<open>\<^verbatim>\<open>sr.get(key, default)\<close> on either dictionary.\<close>

definition sr_download_mbps :: "speed_result \<Rightarrow> real" where
  "sr_download_mbps sr = (case sr of Forensic a \<Rightarrow> am_download_mbps a | Speedtest t \<Rightarrow> st_download_mbps t)"

definition sr_ramp_up_ratio :: "speed_result \<Rightarrow> real" where
  "sr_ramp_up_ratio sr = (case sr of Forensic a \<Rightarrow> am_ramp_up_ratio a | Speedtest t \<Rightarrow> st_ramp_up_ratio t)"

definition sr_consistency_score :: "speed_result \<Rightarrow> real" where
  "sr_consistency_score sr = (case sr of Forensic a \<Rightarrow> am_consistency_score a | Speedtest t \<Rightarrow> 0.5)"

definition sr_latency_under_load_diff :: "speed_result \<Rightarrow> real" where
  "sr_latency_under_load_diff sr = (case sr of Forensic a \<Rightarrow> am_latency_under_load_diff a | Speedtest t \<Rightarrow> 0)"

definition sr_shapes :: "speed_result \<Rightarrow> string list" where
  "sr_shapes sr = (case sr of Forensic a \<Rightarrow> am_shapes a | Speedtest t \<Rightarrow> [])"

text \<open>The session dictionary of \<^verbatim>\<open>handle_context_change\<close> and the row it writes.\<close>

record cell_session =
  start_time :: real
  s_band :: string
  s_pci :: string
  s_enodeb :: string
  total_score :: real
  total_sinr :: real
  total_rsrq :: real
  total_rsrp :: real
  sample_count :: nat

record session_row =
  row_start_time :: real
  row_end_time :: real
  row_duration_sec :: real
  row_band :: string
  row_pci :: string
  row_enodeb :: string
  row_avg_score :: real
  row_avg_sinr :: real
  row_avg_rsrq :: real
  row_avg_rsrp :: real
  row_sample_count :: nat

text \<open>The fields of \<^verbatim>\<open>Monitor\<close> (the provider and the engine hold no state).\<close>

record monitor =
  windows :: "string \<rightharpoonup> real list"
  current_key :: "string option"
  last_change :: real
  last_speedtest_time :: real
  daily_tests_count :: nat
  current_day :: nat
  current_session :: "cell_session option"

definition init_monitor :: "real \<Rightarrow> nat \<Rightarrow> monitor" where
  "init_monitor clock day =
     \<lparr>windows = Map.empty, current_key = None, last_change = clock,
      last_speedtest_time = 0, daily_tests_count = 0, current_day = day,
      current_session = None\<rparr>"

text \<open>
  What one tick reads from outside the monitor: the provider, the clocks, the probes,
  the log file, and the module global \<^verbatim>\<open>last_speed_result\<close> (\<open>None\<close> for the empty
  dictionary), which the start-up thread writes as well. One reading \<open>now_dt\<close> stands
  for the calls of \<^verbatim>\<open>datetime.now()\<close> within a tick. Writing the files is taken to
  succeed; what is written is the tick's output. The module global \<^verbatim>\<open>latest_state\<close>,
  which the monitor only writes, is left out.
\<close>

record tick_env =
  data :: "signal option"
  today :: nat
  now_dt :: real
  clock_change :: real
  clock_gate :: real
  ping_res :: "ping_stats option"
  last_speed_result :: "speed_result option"
  clock_probe :: real
  probe_ping_before :: "ping_stats option"
  probe_runs :: "target_run list"
  speedtest :: "speedtest_result option"
  clock_done :: real
  log_file :: log_store

datatype emit = SessionRow session_row | Observation diagnosis

definition check_day_rollover :: "monitor \<Rightarrow> nat \<Rightarrow> monitor" where
  "check_day_rollover m nd =
     (if nd \<noteq> current_day m then m\<lparr>daily_tests_count := 0, current_day := nd\<rparr> else m)"

definition get_key_and_score :: "signal \<Rightarrow> string \<times> real" where
  "get_key_and_score d =
     (case score d of
        None \<Rightarrow> (''NETWORK_ONLY'', 0)
      | Some s \<Rightarrow> (band d @ '':'' @ pci d @ '':'' @ enodeb d, s))"

text \<open>
  \<^verbatim>\<open>handle_context_change\<close>: a session dictionary is true as a condition whatever its
  sample count, and the first statement under it divides by \<^verbatim>\<open>sample_count\<close>.
\<close>

definition handle_context_change ::
    "monitor \<Rightarrow> string \<Rightarrow> signal \<Rightarrow> tick_env \<Rightarrow> py_error + (monitor \<times> session_row list)" where
  "handle_context_change m key d env =
     (let m' = m\<lparr>current_key := Some key,
                 last_change := clock_change env,
                 windows := (case windows m key of
                               None \<Rightarrow> (windows m)(key \<mapsto> [])
                             | Some w \<Rightarrow> windows m),
                 current_session := Some
                   \<lparr>start_time = now_dt env, s_band = band d, s_pci = pci d, s_enodeb = enodeb d,
                    total_score = 0, total_sinr = 0, total_rsrq = 0, total_rsrp = 0,
                    sample_count = 0\<rparr>\<rparr>
      in case current_session m of
           None \<Rightarrow> Inr (m', [])
         | Some cs \<Rightarrow>
             if sample_count cs = 0 then Inl ZeroDivisionError
             else
               Inr (m',
                 [\<lparr>row_start_time = start_time cs,
                   row_end_time = now_dt env,
                   row_duration_sec = py_round (now_dt env - start_time cs) 1,
                   row_band = s_band cs, row_pci = s_pci cs, row_enodeb = s_enodeb cs,
                   row_avg_score = py_round (total_score cs / real (sample_count cs)) 2,
                   row_avg_sinr = py_round (total_sinr cs / real (sample_count cs)) 2,
                   row_avg_rsrq = py_round (total_rsrq cs / real (sample_count cs)) 2,
                   row_avg_rsrp = py_round (total_rsrp cs / real (sample_count cs)) 2,
                   row_sample_count = sample_count cs\<rparr>]))"

definition update_session :: "monitor \<Rightarrow> real \<Rightarrow> signal \<Rightarrow> monitor" where
  "update_session m s d =
     (case current_session m of
        None \<Rightarrow> m
      | Some cs \<Rightarrow>
          m\<lparr>current_session := Some
              (cs\<lparr>total_score := total_score cs + s,
                  total_sinr := total_sinr cs + (case sinr d of None \<Rightarrow> 0 | Some v \<Rightarrow> v),
                  total_rsrq := total_rsrq cs + (case rsrq d of None \<Rightarrow> 0 | Some v \<Rightarrow> v),
                  total_rsrp := total_rsrp cs + (case rsrp d of None \<Rightarrow> 0 | Some v \<Rightarrow> v),
                  sample_count := sample_count cs + 1\<rparr>)\<rparr>)"

text \<open>
  \<^verbatim>\<open>execute_speedtest_if_needed\<close>. The third component of the result records whether
  line 265 ran, that is whether a throughput test was started.
\<close>

definition execute_speedtest_if_needed ::
    "monitor \<Rightarrow> real \<Rightarrow> tick_env \<Rightarrow> monitor \<times> speed_result option \<times> bool" where
  "execute_speedtest_if_needed m psi env =
     (if MAX_DAILY_tests \<le> daily_tests_count m then (m, None, False)
      else
        let ts = clock_probe env - last_speedtest_time m
        in if BASELINE_INTERVAL_SECONDS < ts \<or> (PSI_TRIGGER_THRESHOLD < psi \<and> 900 < ts) then
             (case (case run_forensic_download (probe_ping_before env) (probe_runs env) of
                      Some a \<Rightarrow> Some (Forensic a)
                    | None \<Rightarrow> map_option Speedtest (speedtest env)) of
                Some res \<Rightarrow>
                  (m\<lparr>daily_tests_count := daily_tests_count m + 1,
                     last_speedtest_time := clock_done env\<rparr>, Some res, True)
              | None \<Rightarrow> (m, None, True))
           else (m, None, False))"

text \<open>
  \<^verbatim>\<open>process_window\<close>; the observation \<^verbatim>\<open>log_observation\<close> appends to the log is the
  output.
\<close>

definition process_window ::
    "monitor \<Rightarrow> string \<Rightarrow> signal \<Rightarrow> tick_env \<Rightarrow> py_error + (monitor \<times> diagnosis list)" where
  "process_window m key d env =
     (case windows m key of
        None \<Rightarrow> Inl (KeyError key)
      | Some vals \<Rightarrow>
          if length vals < MIN_SAMPLES then Inr (m, [])
          else
            let avg = mean vals;
                ld = (case last_speed_result env of None \<Rightarrow> 0 | Some r \<Rightarrow> sr_download_mbps r);
                ll = (case ping_res env of None \<Rightarrow> 0 | Some p \<Rightarrow> avg_rtt p)
            in (case execute_speedtest_if_needed m (calculate_simple_psi (Some avg) ld ll) env of
                  (m1, sr, started) \<Rightarrow>
                    let nd = \<lparr>
                          nd_down_mbps = Some (case sr of None \<Rightarrow> ld | Some r \<Rightarrow> sr_download_mbps r),
                          nd_latency = Some (case ping_res env of None \<Rightarrow> ll | Some p \<Rightarrow> avg_rtt p),
                          nd_jitter = Some (case ping_res env of None \<Rightarrow> 0 | Some p \<Rightarrow> ping_jitter p),
                          nd_packet_loss =
                            Some (case ping_res env of None \<Rightarrow> 0 | Some p \<Rightarrow> ping_packet_loss p),
                          nd_ramp_up_ratio = Some (case sr of None \<Rightarrow> 1.0 | Some r \<Rightarrow> sr_ramp_up_ratio r),
                          nd_consistency_score =
                            Some (case sr of None \<Rightarrow> 0.5 | Some r \<Rightarrow> sr_consistency_score r),
                          nd_latency_under_load_diff =
                            Some (case sr of None \<Rightarrow> 0 | Some r \<Rightarrow> sr_latency_under_load_diff r),
                          nd_shapes = Some (case sr of None \<Rightarrow> [] | Some r \<Rightarrow> sr_shapes r)\<rparr>;
                        hist = get_history_analysis (log_file env) (now_dt env)
                    in (case analyze (Some d) (Some nd) (Some hist) of
                          Inl e \<Rightarrow> Inl e
                        | Inr analysis \<Rightarrow>
                            Inr (m1\<lparr>windows := (windows m1)(key \<mapsto> [])\<rparr>, [analysis]))))"

definition tick :: "monitor \<Rightarrow> tick_env \<Rightarrow> py_error + (monitor \<times> emit list)" where
  "tick m env =
     (case data env of
        None \<Rightarrow> Inr (m, [])
      | Some d \<Rightarrow>
          let m1 = check_day_rollover m (today env)
          in (case get_key_and_score d of
                (key, s) \<Rightarrow>
                  (case (if current_key m1 \<noteq> Some key then handle_context_change m1 key d env
                         else Inr (m1, [])) of
                     Inl e \<Rightarrow> Inl e
                   | Inr (m2, rows) \<Rightarrow>
                       (case windows m2 key of
                          None \<Rightarrow> Inl (KeyError key)
                        | Some w \<Rightarrow>
                            let m3 = m2\<lparr>windows := (windows m2)(key \<mapsto> w @ [s])\<rparr>;
                                m4 = update_session m3 s d
                            in if WINDOW_SECONDS \<le> clock_gate env - last_change m4 then
                                 (case process_window m4 key d env of
                                    Inl e \<Rightarrow> Inl e
                                  | Inr (m5, obs) \<Rightarrow>
                                      Inr (m5, map SessionRow rows @ map Observation obs))
                               else Inr (m4, map SessionRow rows)))))"

text \<open>The states of a monitor that \<^verbatim>\<open>run\<close> drives: each completed tick is a step.\<close>

inductive reachable :: "monitor \<Rightarrow> bool" where
  start: "reachable (init_monitor clock day)"
| step: "reachable m \<Longrightarrow> tick m env = Inr (m', out) \<Longrightarrow> reachable m'"

definition session_samples :: "monitor \<Rightarrow> nat" where
  "session_samples m = (case current_session m of None \<Rightarrow> 0 | Some cs \<Rightarrow> sample_count cs)"

definition session_rows :: "emit list \<Rightarrow> session_row list" where
  "session_rows out = concat (map (\<lambda>e. case e of SessionRow r \<Rightarrow> [r] | Observation x \<Rightarrow> []) out)"

section \<open>Concrete inputs and auxiliary definitions\<close>

definition example_signal :: "real option \<Rightarrow> signal" where
  "example_signal sc =
     \<lparr>band = ''B3'', pci = ''101'', enodeb = ''7'', sinr = Some 12, rsrq = Some (-11),
      rsrp = Some (-95), score = sc\<rparr>"





definition rising_samples :: "sample list" where
  "rising_samples = [(0.5, 1), (1, 3), (1.5, 5), (2, 7), (2.5, 9), (3, 11)]"

definition steady_samples :: "sample list" where
  "steady_samples = [(0.5, 10), (1, 10.1), (1.5, 9.9), (2, 10.05)]"

text \<open>
  The in-flight ping samples of a probe, read off its inputs: the replies the ping
  thread collected during each download that yielded a result.
\<close>

definition in_flight_pings :: "target_run list \<Rightarrow> real list" where
  "in_flight_pings runs =
     concat (map (\<lambda>t. map the (filter (\<lambda>r. r \<noteq> None) (ping_rtts t)))
                 (filter (\<lambda>t. download t \<noteq> Failed) runs))"

definition short_run :: "real option list \<Rightarrow> target_run" where
  "short_run rtts = \<lparr>download = Finished 1000000 [(0.5, 8), (1, 8)] 2, ping_rtts = rtts\<rparr>"

definition failed_run :: target_run where
  "failed_run = \<lparr>download = Failed, ping_rtts = [Some 30, None]\<rparr>"

definition example_runs :: "target_run list" where
  "example_runs = [failed_run, short_run [Some 40, None, Some 60], failed_run]"

definition example_ping :: ping_stats where
  "example_ping = \<lparr>min_rtt = 20, max_rtt = 30, avg_rtt = 25, ping_packet_loss = 0, ping_jitter = 5\<rparr>"

definition example_speedtest :: speedtest_result where
  "example_speedtest =
     \<lparr>st_download_mbps = 20, st_upload_mbps = 5, st_ramp_up_ratio = 1,
      st_ping_latency = 30, st_packet_loss = 0\<rparr>"

definition example_env :: tick_env where
  "example_env =
     \<lparr>data = Some (example_signal (Some 60)), today = 1, now_dt = 20000,
      clock_change = 20000, clock_gate = 20001, ping_res = Some example_ping,
      last_speed_result = None, clock_probe = 20002,
      probe_ping_before = None, probe_runs = [failed_run],
      speedtest = Some example_speedtest, clock_done = 20030, log_file = Missing\<rparr>"

definition capped_monitor :: monitor where
  "capped_monitor = (init_monitor 0 1)\<lparr>daily_tests_count := 12\<rparr>"

definition session_inv :: "monitor \<Rightarrow> bool" where
  "session_inv m \<longleftrightarrow>
     (case current_session m of None \<Rightarrow> True | Some cs \<Rightarrow> 0 < sample_count cs)
     \<and> (case current_key m of None \<Rightarrow> True | Some k \<Rightarrow> windows m k \<noteq> None)"

definition after_first_tick :: monitor where
  "after_first_tick =
     \<lparr>windows = [''B3:101:7'' \<mapsto> [60]], current_key = Some ''B3:101:7'',
      last_change = 20000, last_speedtest_time = 0, daily_tests_count = 0, current_day = 1,
      current_session = Some
        \<lparr>start_time = 20000, s_band = ''B3'', s_pci = ''101'', s_enodeb = ''7'',
         total_score = 60, total_sinr = 12, total_rsrq = - 11, total_rsrp = - 95,
         sample_count = 1\<rparr>\<rparr>"

definition same_hour_row :: log_row where
  "same_hour_row =
     \<lparr>timestamp = Stamp 913600, data_bytes = Blank, avg_score = Num 50,
      row_verdict = Some ''Congestion Indicators Present''\<rparr>"

definition five_rows :: "log_row list" where
  "five_rows = [same_hour_row, same_hour_row, same_hour_row, same_hour_row, same_hour_row]"

definition six_rows :: "log_row list" where
  "six_rows = same_hour_row # five_rows"

section \<open>The shape classifier: proofs\<close>

lemma analyze_shape_few:
  "length smpls < 4 \<Longrightarrow> analyze_shape_in tb smpls = Inr ''uncertain''"
  by (simp add: analyze_shape_in_def)

lemma analyze_shape_unbound:
  assumes "4 \<le> length smpls"
    and "steady = drop (length smpls div 4) (map snd smpls)"
    and "0.1 \<le> mean steady"
    and "0.15 \<le> stdev steady / mean steady"
  shows "analyze_shape smpls = Inl (NameError ''times'')"
proof -
  from assms(1) have "length smpls div 4 < length smpls" by simp
  with assms(2) have ne: "steady \<noteq> []" by simp
  from assms(1) have "1 < length smpls - length smpls div 4" by linarith
  with assms(2) have len: "1 < length steady" by simp
  from assms ne len show ?thesis
    by (simp add: analyze_shape_def analyze_shape_in_def Let_def not_less [symmetric])
qed

lemma rising_tail: "drop (length rising_samples div 4) (map snd rising_samples) = [3, 5, 7, 9, 11]"
  by (simp add: rising_samples_def)

lemma rising_mean: "mean [3, 5, 7, 9, 11] = 7"
  by (simp add: mean_def)

lemma rising_stdev: "stdev [3, 5, 7, 9, 11] = sqrt 10"
  by (simp add: stdev_def sq_dev_def rising_mean)

lemma sqrt10: "3 \<le> sqrt 10"
  by (rule real_le_rsqrt) simp

lemma rising_length: "4 \<le> length rising_samples"
  by (simp add: rising_samples_def)

lemma rising_tail_eq:
  "[3, 5, 7, 9, 11] = drop (length rising_samples div 4) (map snd rising_samples)"
  by (simp add: rising_tail)

lemma rising_mean_bound: "0.1 \<le> mean [3, 5, 7, 9, 11]"
  by (simp add: rising_mean)

lemma rising_cv: "0.15 \<le> stdev [3, 5, 7, 9, 11] / mean [3, 5, 7, 9, 11]"
  using sqrt10 by (simp add: rising_mean rising_stdev)

text \<open>
  Claim C1 on the code: the samples rising from 1 to 11 have a steady-state tail
  \<open>[3, 5, 7, 9, 11]\<close> of mean 7 and coefficient of variation above 0.15, so the
  classifier enters its regression branch, where reading the unbound name \<^verbatim>\<open>times\<close>
  raises NameError; no label is returned.
\<close>

theorem analyze_shape_rising_raises:
  "analyze_shape rising_samples = Inl (NameError ''times'')"
  by (rule analyze_shape_unbound [OF rising_length rising_tail_eq rising_mean_bound rising_cv])

text \<open>
  The exception reaches the probe: a download that ends with the rising samples makes
  \<^verbatim>\<open>run_forensic_download\<close> return no measurement, whatever the other targets did.
\<close>

lemma probe_lost_on_rising_samples:
  "run_forensic_download pb
     (\<lparr>download = Finished n rising_samples t, ping_rtts = rtts\<rparr> # runs) = None"
  using analyze_shape_unbound [OF rising_length rising_tail_eq rising_mean_bound rising_cv]
  by (simp add: run_forensic_download_def run_single_download_def Let_def)

text \<open>
  The branches before the regression behave as the claim says: fewer than four samples
  give \<open>uncertain\<close> (\<open>analyze_shape_few\<close>), and a steady tail gives \<open>plateau\<close>.
\<close>

lemma analyze_shape_plateau:
  assumes "4 \<le> length smpls"
    and "steady = drop (length smpls div 4) (map snd smpls)"
    and "0.1 \<le> mean steady"
    and "stdev steady / mean steady < 0.15"
  shows "analyze_shape_in tb smpls = Inr ''plateau''"
proof -
  from assms(1) have "length smpls div 4 < length smpls" by simp
  with assms(2) have ne: "steady \<noteq> []" by simp
  from assms(1) have "1 < length smpls - length smpls div 4" by linarith
  with assms(2) have len: "1 < length steady" by simp
  from assms ne len show ?thesis
    by (simp add: analyze_shape_in_def Let_def not_less [symmetric])
qed

lemma steady_mean: "mean [101 / 10, 99 / 10, 201 / 20] = 601 / 60"
  by (simp add: mean_def)

lemma steady_stdev: "stdev [101 / 10, 99 / 10, 201 / 20] = sqrt (13 / 1200)"
  unfolding stdev_def sq_dev_def steady_mean by (simp add: power2_eq_square)

lemma analyze_shape_steady: "analyze_shape steady_samples = Inr ''plateau''"
  unfolding analyze_shape_def
proof (rule analyze_shape_plateau)
  show "4 \<le> length steady_samples" by (simp add: steady_samples_def)
  show "[101 / 10, 99 / 10, 201 / 20] = drop (length steady_samples div 4) (map snd steady_samples)"
    by (simp add: steady_samples_def)
  show "0.1 \<le> mean [101 / 10, 99 / 10, 201 / 20]"
    unfolding steady_mean by simp
  have "sqrt (13 / 1200) \<le> 1" by simp
  then have "400 * sqrt (13 / 1200) < 601" by linarith
  then show "stdev [101 / 10, 99 / 10, 201 / 20] / mean [101 / 10, 99 / 10, 201 / 20] < 0.15"
    unfolding steady_mean steady_stdev by simp
qed

text \<open>
  With the name bound to the elapsed times of the samples, the regression branch would
  classify the rising samples as the claim says.
\<close>

lemma rising_axis_mean: "mean (map fst rising_samples) = 7 / 4"
  by (simp add: mean_def rising_samples_def)

lemma rising_values_mean: "mean (map snd rising_samples) = 6"
  by (simp add: mean_def rising_samples_def)

lemma rising_axis_dev: "sq_dev (map fst rising_samples) = 35 / 8"
  unfolding sq_dev_def rising_axis_mean by (simp add: rising_samples_def power2_eq_square)

lemma rising_values_dev: "sq_dev (map snd rising_samples) = 70"
  unfolding sq_dev_def rising_values_mean by (simp add: rising_samples_def)

lemma rising_cross_dev: "cross_dev (map fst rising_samples) (map snd rising_samples) = 35 / 2"
  unfolding cross_dev_def rising_axis_mean rising_values_mean by (simp add: rising_samples_def)

lemma rising_slope:
  "linear_regression_slope (map fst rising_samples) (map snd rising_samples) = Some 4"
  by (simp add: linear_regression_slope_def rising_axis_dev rising_cross_dev)
    (simp add: rising_samples_def)

lemma rising_correlation:
  "correlation (map fst rising_samples) (map snd rising_samples) = Some 1"
proof -
  have "sqrt (35 / 8 * 70) = sqrt ((35 / 2)\<^sup>2)"
    by (simp add: power2_eq_square)
  also have "\<dots> = 35 / 2" by (simp del: power_divide)
  finally have "sqrt (35 / 8 * 70) = (35 / 2 :: real)" .
  then show ?thesis
    by (simp add: correlation_def rising_axis_dev rising_values_dev rising_cross_dev)
      (simp add: rising_samples_def)
qed

lemma analyze_shape_bound:
  assumes "4 \<le> length smpls"
    and "steady = drop (length smpls div 4) (map snd smpls)"
    and "0.1 \<le> mean steady"
    and "0.15 \<le> stdev steady / mean steady"
    and "linear_regression_slope ts (map snd smpls) = Some slope"
    and "correlation ts (map snd smpls) = Some corr"
  shows "analyze_shape_in (Some ts) smpls =
           Inr (if 0.8 < corr \<and> 0 < slope then ''linear_climb'' else ''logarithmic'')"
proof -
  from assms(1) have "length smpls div 4 < length smpls" by simp
  with assms(2) have ne: "steady \<noteq> []" by simp
  from assms(1) have "1 < length smpls - length smpls div 4" by linarith
  with assms(2) have len: "1 < length steady" by simp
  from assms ne len show ?thesis
    by (simp add: analyze_shape_in_def Let_def not_less [symmetric])
qed

lemma analyze_shape_in_rising:
  "analyze_shape_in (Some (map fst rising_samples)) rising_samples = Inr ''linear_climb''"
proof -
  from rising_length rising_tail_eq rising_mean_bound rising_cv rising_slope rising_correlation
  have "analyze_shape_in (Some (map fst rising_samples)) rising_samples =
      Inr (if 0.8 < (1::real) \<and> 0 < (4::real) then ''linear_climb'' else ''logarithmic'')"
    by (rule analyze_shape_bound)
  then show ?thesis by simp
qed

section \<open>The diagnosis engine: proofs\<close>

subsection \<open>Radio likelihood\<close>

lemma calculate_radio_Some:
  "calculate_radio (Some s) =
     (if s < 30 then 0.95 else if s < 50 then 0.8 else if s < 70 then 0.4
      else if 85 < s then 0.05 else 0)"
  by (simp add: calculate_radio_def RADIO_THRESHOLD_TERRIBLE_def RADIO_THRESHOLD_BAD_def
      RADIO_THRESHOLD_MED_def RADIO_THRESHOLD_GOOD_def)

text \<open>
  Claim C2, as the code has it: an unknown score gives exactly 0.10; a known score gives
  the value of the table (below 30: 0.95, below 50: 0.80, below 70: 0.40, above 85: 0.05,
  otherwise 0.00); the function is non-increasing on the scores up to 85 and on the
  scores above 85. It is not non-increasing across 85, where it rises from 0.00 to 0.05.
\<close>

theorem calculate_radio_steps:
  "calculate_radio None = 0.1
   \<and> calculate_radio (Some s) =
       (if s < 30 then 0.95 else if s < 50 then 0.8 else if s < 70 then 0.4
        else if 85 < s then 0.05 else 0)
   \<and> (x \<le> y \<and> y \<le> 85 \<longrightarrow> calculate_radio (Some y) \<le> calculate_radio (Some x))
   \<and> (85 < x \<and> x \<le> y \<longrightarrow> calculate_radio (Some y) \<le> calculate_radio (Some x))"
proof -
  have none: "calculate_radio None = 0.1"
    by (simp add: calculate_radio_def)
  have low: "x \<le> y \<and> y \<le> 85 \<longrightarrow> calculate_radio (Some y) \<le> calculate_radio (Some x)"
    by (simp add: calculate_radio_Some)
  have high: "85 < x \<and> x \<le> y \<longrightarrow> calculate_radio (Some y) \<le> calculate_radio (Some x)"
    by (simp add: calculate_radio_Some)
  from none calculate_radio_Some low high show ?thesis by blast
qed

theorem calculate_radio_steps_witness:
  "(20::real) \<le> 60 \<and> (60::real) \<le> 85 \<and> calculate_radio (Some 60) \<le> calculate_radio (Some 20)
   \<and> (85::real) < 90 \<and> (90::real) \<le> 95 \<and> calculate_radio (Some 95) \<le> calculate_radio (Some 90)"
proof -
  have h1: "(20::real) \<le> 60 \<and> (60::real) \<le> 85" by simp
  have h2: "(85::real) < 90 \<and> (90::real) \<le> 95" by simp
  from calculate_radio_steps [of 20 20 60] h1
  have c1: "calculate_radio (Some 60) \<le> calculate_radio (Some 20)" by blast
  from calculate_radio_steps [of 20 90 95] h2
  have c2: "calculate_radio (Some 95) \<le> calculate_radio (Some 90)" by blast
  from h1 h2 c1 c2 show ?thesis by blast
qed

text \<open>
  Claim C2 as stated fails: 80 and 90 are scores in [0,100] with 80 below 90, and the
  radio likelihood at 90 (0.05) is above the one at 80 (0.00).
\<close>

theorem calculate_radio_not_monotone:
  "(0::real) \<le> 80 \<and> (80::real) \<le> 90 \<and> (90::real) \<le> 100
   \<and> \<not> calculate_radio (Some 90) \<le> calculate_radio (Some 80)"
  by (simp add: calculate_radio_Some)

subsection \<open>Normalization and rounding\<close>

lemma analyze_Inr:
  assumes "extract_metrics sd nw = Inr m"
    and "capped_likelihoods (raw_likelihoods m h) = (r, c, p)"
  shows "analyze sd nw h =
     Inr \<lparr>radio_likelihood = py_round r 2,
          congestion_likelihood = py_round c 2,
          policy_likelihood = py_round p 2,
          verdict = (if startswith (get_verdict r c p) ''Policy'' \<and> \<not> is_confident h
                     then ''Observed, low confidence'' else get_verdict r c p),
          consistency_score = consistency m\<rparr>"
  using assms by (simp add: analyze_def Let_def)




















subsection \<open>Missing inputs\<close>




subsection \<open>Verdict selection\<close>

text \<open>
  Claim C5: with \<open>m\<close> the largest of the three likelihoods, the verdict is
  Inconclusive / Gathering Data when \<open>m < 0.4\<close>; otherwise radio's label when radio
  equals \<open>m\<close>, else congestion's when congestion equals \<open>m\<close>, else policy's. Radio
  0.6, congestion 0.6, policy 0.2 selects radio's label.
\<close>

theorem get_verdict_selection:
  "(max r (max c p) < 0.4 \<longrightarrow> get_verdict r c p = ''Inconclusive / Gathering Data'')
   \<and> (0.4 \<le> max r (max c p) \<and> r = max r (max c p)
        \<longrightarrow> get_verdict r c p = ''Radio Impairment Likely'')
   \<and> (0.4 \<le> max r (max c p) \<and> r \<noteq> max r (max c p) \<and> c = max r (max c p)
        \<longrightarrow> get_verdict r c p = ''Congestion Indicators Present'')
   \<and> (0.4 \<le> max r (max c p) \<and> r \<noteq> max r (max c p) \<and> c \<noteq> max r (max c p)
        \<longrightarrow> p = max r (max c p) \<and> get_verdict r c p = ''Policy-Like Pattern Detected'')
   \<and> get_verdict 0.6 0.6 0.2 = ''Radio Impairment Likely''"
  by (simp add: get_verdict_def Let_def max_def)

theorem get_verdict_selection_witness:
  "max (0.1::real) (max 0.3 0.2) < 0.4
   \<and> get_verdict 0.1 0.3 0.2 = ''Inconclusive / Gathering Data''
   \<and> (0.4::real) \<le> max 0.6 (max 0.6 0.2) \<and> (0.6::real) = max 0.6 (max 0.6 0.2)
   \<and> get_verdict 0.6 0.6 0.2 = ''Radio Impairment Likely''
   \<and> (0.4::real) \<le> max 0.5 (max 0.7 0.7) \<and> (0.5::real) \<noteq> max 0.5 (max 0.7 0.7)
   \<and> (0.7::real) = max 0.5 (max 0.7 0.7)
   \<and> get_verdict 0.5 0.7 0.7 = ''Congestion Indicators Present''
   \<and> (0.4::real) \<le> max 0.1 (max 0.2 0.9) \<and> (0.1::real) \<noteq> max 0.1 (max 0.2 0.9)
   \<and> (0.2::real) \<noteq> max 0.1 (max 0.2 0.9)
   \<and> get_verdict 0.1 0.2 0.9 = ''Policy-Like Pattern Detected''"
proof -
  have h1: "max (0.1::real) (max 0.3 0.2) < 0.4" by simp
  have h2: "(0.4::real) \<le> max 0.6 (max 0.6 0.2) \<and> (0.6::real) = max 0.6 (max 0.6 0.2)" by simp
  have h3: "(0.4::real) \<le> max 0.5 (max 0.7 0.7) \<and> (0.5::real) \<noteq> max 0.5 (max 0.7 0.7)
     \<and> (0.7::real) = max 0.5 (max 0.7 0.7)" by simp
  have h4: "(0.4::real) \<le> max 0.1 (max 0.2 0.9) \<and> (0.1::real) \<noteq> max 0.1 (max 0.2 0.9)
     \<and> (0.2::real) \<noteq> max 0.1 (max 0.2 0.9)" by simp
  from get_verdict_selection [of "0.1" "0.3" "0.2"] h1
  have c1: "get_verdict 0.1 0.3 0.2 = ''Inconclusive / Gathering Data''" by blast
  from get_verdict_selection [of "0.6" "0.6" "0.2"] h2
  have c2: "get_verdict 0.6 0.6 0.2 = ''Radio Impairment Likely''" by blast
  from get_verdict_selection [of "0.5" "0.7" "0.7"] h3
  have c3: "get_verdict 0.5 0.7 0.7 = ''Congestion Indicators Present''" by blast
  from get_verdict_selection [of "0.1" "0.2" "0.9"] h4
  have c4: "get_verdict 0.1 0.2 0.9 = ''Policy-Like Pattern Detected''" by blast
  from h1 h2 h3 h4 c1 c2 c3 c4 show ?thesis by blast
qed

section \<open>The throughput probe: proofs\<close>

lemma run_single_download_Failed_iff:
  "run_single_download outcome = Inr None \<longleftrightarrow> outcome = Failed"
  by (cases outcome) (auto simp add: run_single_download_def Let_def split: sum.splits)

lemma download_targets_pings:
  "download_targets runs = Inr results \<Longrightarrow>
   concat (map ping_during results) = in_flight_pings runs
   \<and> length results = length (filter (\<lambda>t. download t \<noteq> Failed) runs)"
proof (induction runs arbitrary: results)
  case Nil
  then show ?case by (simp add: in_flight_pings_def)
next
  case (Cons t ts)
  from Cons.prems obtain dl rest where dl: "run_single_download (download t) = Inr dl"
    and rest: "download_targets ts = Inr rest"
    by (auto split: sum.splits)
  from Cons.IH [OF rest] have ih: "concat (map ping_during rest) = in_flight_pings ts"
    "length rest = length (filter (\<lambda>t. download t \<noteq> Failed) ts)"
    by simp_all
  show ?case
  proof (cases dl)
    case None
    with dl have "download t = Failed" by (simp add: run_single_download_Failed_iff)
    moreover from None dl rest Cons.prems have "results = rest" by simp
    ultimately show ?thesis using ih by (simp add: in_flight_pings_def)
  next
    case (Some r)
    with dl have "download t \<noteq> Failed"
      using run_single_download_Failed_iff [of "download t"] by auto
    moreover from Some dl rest Cons.prems
    have "results = dl_res.extend r
        \<lparr>ping_during = map the (filter (\<lambda>r. r \<noteq> None) (ping_rtts t))\<rparr> # rest"
      by simp
    ultimately show ?thesis using ih
      by (simp add: in_flight_pings_def dl_res.defs)
  qed
qed

lemma run_forensic_download_Some:
  assumes "download_targets runs = Inr results" and "results \<noteq> []"
  shows "\<exists>a. run_forensic_download pb runs = Some a
    \<and> am_consistency_score a =
        (if 1 < length results
         then max 0 (1 - (if 0 < mean (map mbps results)
                          then stdev (map mbps results) / mean (map mbps results) else 0) * 2)
         else 1)
    \<and> am_latency_under_load_diff a =
        (if concat (map ping_during results) \<noteq> []
         then mean (concat (map ping_during results)) - (case pb of None \<Rightarrow> 0 | Some p \<Rightarrow> avg_rtt p)
         else 0)"
  using assms by (simp add: run_forensic_download_def Let_def)

text \<open>
  Claim C7, as the code has it: whenever the probe yields a measurement, its
  \<^verbatim>\<open>latency_under_load_diff\<close> is 0 if there are no in-flight ping samples, and
  otherwise the mean of the in-flight ping samples (those of the endpoints that yielded
  a result) minus the baseline RTT, where a missing baseline measurement counts as a
  baseline of 0.
\<close>

theorem latency_under_load_diff_value:
  assumes "download_targets runs = Inr results" and "results \<noteq> []"
  shows "\<exists>a. run_forensic_download pb runs = Some a
    \<and> am_latency_under_load_diff a =
        (if in_flight_pings runs = [] then 0
         else mean (in_flight_pings runs) - (case pb of None \<Rightarrow> 0 | Some p \<Rightarrow> avg_rtt p))"
proof -
  from assms(1) have "concat (map ping_during results) = in_flight_pings runs"
    by (simp add: download_targets_pings)
  with run_forensic_download_Some [OF assms, of pb] show ?thesis
    by auto
qed

text \<open>
  Claim C10: when exactly one endpoint yields a result (and its classification returns),
  the probe yields a measurement whose \<^verbatim>\<open>consistency_score\<close> is 1.0, the initial
  default.
\<close>

theorem single_endpoint_consistency:
  assumes "download_targets runs = Inr results"
    and "length (filter (\<lambda>t. download t \<noteq> Failed) runs) = 1"
  shows "\<exists>a. run_forensic_download pb runs = Some a \<and> am_consistency_score a = 1"
proof -
  from assms have len: "length results = 1"
    by (simp add: download_targets_pings)
  then have "results \<noteq> []" by auto
  from run_forensic_download_Some [OF assms(1) this, of pb] len show ?thesis
    by auto
qed

lemma short_run_download:
  "run_single_download (download (short_run rtts)) =
     Inr (Some \<lparr>mbps = 4, samples = [(0.5, 8), (1, 8)], shape = ''uncertain'',
                total_bytes = 1000000\<rparr>)"
  by (simp add: short_run_def run_single_download_def analyze_shape_def analyze_shape_in_def)

lemma failed_run_download: "run_single_download (download failed_run) = Inr None"
  by (simp add: failed_run_def run_single_download_def)

lemma example_runs_results:
  "download_targets example_runs =
     Inr [dl_res.extend
            \<lparr>mbps = 4, samples = [(0.5, 8), (1, 8)], shape = ''uncertain'', total_bytes = 1000000\<rparr>
            \<lparr>ping_during = [40, 60]\<rparr>]"
  by (simp add: example_runs_def short_run_download failed_run_download)
    (simp add: short_run_def)

lemma example_runs_succeeded:
  "length (filter (\<lambda>t. download t \<noteq> Failed) example_runs) = 1"
  by (simp add: example_runs_def short_run_def failed_run_def)

lemma example_runs_pings: "in_flight_pings example_runs = [40, 60]"
  by (simp add: in_flight_pings_def example_runs_def short_run_def failed_run_def)

theorem single_endpoint_consistency_witness:
  "length (filter (\<lambda>t. download t \<noteq> Failed) example_runs) = 1
   \<and> (\<exists>results. download_targets example_runs = Inr results)
   \<and> (\<exists>a. run_forensic_download (Some example_ping) example_runs = Some a
          \<and> am_consistency_score a = 1)"
proof -
  from single_endpoint_consistency [OF example_runs_results example_runs_succeeded]
  have "\<exists>a. run_forensic_download (Some example_ping) example_runs = Some a
          \<and> am_consistency_score a = 1"
    by blast
  with example_runs_succeeded example_runs_results show ?thesis by blast
qed

theorem latency_under_load_diff_value_witness:
  "(\<exists>results. download_targets example_runs = Inr results \<and> results \<noteq> [])
   \<and> (\<exists>a. run_forensic_download (Some example_ping) example_runs = Some a
          \<and> am_latency_under_load_diff a = 25)"
proof -
  have ne: "[dl_res.extend
            \<lparr>mbps = 4, samples = [(0.5, 8), (1, 8)], shape = ''uncertain'', total_bytes = 1000000\<rparr>
            \<lparr>ping_during = [40, 60 :: real]\<rparr>] \<noteq> []"
    by simp
  from latency_under_load_diff_value [OF example_runs_results ne, of "Some example_ping"]
  have "\<exists>a. run_forensic_download (Some example_ping) example_runs = Some a
          \<and> am_latency_under_load_diff a = 25"
    by (simp add: example_runs_pings mean_def example_ping_def)
  with example_runs_results ne show ?thesis by blast
qed

text \<open>
  Claim C7 as stated fails without a baseline measurement: with one in-flight sample of
  40 ms and no baseline the difference is 40, not 0.
\<close>

theorem latency_diff_without_baseline:
  "map_option am_latency_under_load_diff (run_forensic_download None [short_run [Some 40]])
     = Some 40 \<and> (40 :: real) \<noteq> 0"
proof -
  have r: "download_targets [short_run [Some 40]] =
     Inr [dl_res.extend
            \<lparr>mbps = 4, samples = [(0.5, 8), (1, 8)], shape = ''uncertain'', total_bytes = 1000000\<rparr>
            \<lparr>ping_during = [40]\<rparr>]"
    by (simp add: short_run_download) (simp add: short_run_def)
  have "\<exists>a. run_forensic_download None [short_run [Some 40]] = Some a
     \<and> am_latency_under_load_diff a = 40"
    using run_forensic_download_Some [OF r, of None] by (auto simp add: dl_res.defs mean_def)
  then show ?thesis by auto
qed

section \<open>The orchestrator: proofs\<close>

subsection \<open>The trigger rule\<close>

lemma forensic_all_failed: "run_forensic_download pb [failed_run] = None"
  by (simp add: run_forensic_download_def failed_run_download)

text \<open>
  Claim C6: a throughput test is started exactly when the daily counter is below the cap
  of 12 and either more than four hours have passed since the last triggered test, or
  the PSI is above 50 and more than 900 seconds have passed; at the cap no test is
  started whatever the PSI and the elapsed time. A test that yields a result adds one
  to the daily counter and records the new last-test time; otherwise (no test, or a test
  without result) the monitor is unchanged.
\<close>

theorem speedtest_trigger_rule:
  assumes "execute_speedtest_if_needed m psi env = (m', res, started)"
  shows "MAX_DAILY_tests = 12
    \<and> (started \<longleftrightarrow>
          daily_tests_count m < 12
          \<and> (4 * 3600 < clock_probe env - last_speedtest_time m
               \<or> (50 < psi \<and> 900 < clock_probe env - last_speedtest_time m)))
    \<and> (12 \<le> daily_tests_count m \<longrightarrow> \<not> started \<and> res = None \<and> m' = m)
    \<and> (res \<noteq> None \<longrightarrow>
          started
          \<and> m' = m\<lparr>daily_tests_count := daily_tests_count m + 1,
                    last_speedtest_time := clock_done env\<rparr>)
    \<and> (res = None \<longrightarrow> m' = m)"
  using assms
  by (auto simp add: execute_speedtest_if_needed_def MAX_DAILY_tests_def
      BASELINE_INTERVAL_SECONDS_def PSI_TRIGGER_THRESHOLD_def Let_def
      split: if_splits option.splits)

lemma execute_fresh:
  "execute_speedtest_if_needed (init_monitor 0 1) 0 example_env =
     ((init_monitor 0 1)\<lparr>daily_tests_count := 1, last_speedtest_time := 20030\<rparr>,
      Some (Speedtest example_speedtest), True)"
  by (simp add: execute_speedtest_if_needed_def init_monitor_def example_env_def
      MAX_DAILY_tests_def BASELINE_INTERVAL_SECONDS_def forensic_all_failed Let_def)

lemma execute_capped:
  "execute_speedtest_if_needed capped_monitor 100 example_env = (capped_monitor, None, False)"
  by (simp add: execute_speedtest_if_needed_def capped_monitor_def MAX_DAILY_tests_def)

lemma execute_failing:
  "execute_speedtest_if_needed (init_monitor 0 1) 0 (example_env\<lparr>speedtest := None\<rparr>) =
     (init_monitor 0 1, None, True)"
  by (simp add: execute_speedtest_if_needed_def init_monitor_def example_env_def
      MAX_DAILY_tests_def BASELINE_INTERVAL_SECONDS_def forensic_all_failed Let_def)

theorem speedtest_trigger_rule_witness:
  "execute_speedtest_if_needed (init_monitor 0 1) 0 example_env =
     ((init_monitor 0 1)\<lparr>daily_tests_count := 1, last_speedtest_time := 20030\<rparr>,
      Some (Speedtest example_speedtest), True)
   \<and> daily_tests_count (init_monitor 0 1) < 12
   \<and> (4 * 3600 < clock_probe example_env - last_speedtest_time (init_monitor 0 1)
        \<or> (50 < (0::real) \<and> 900 < clock_probe example_env - last_speedtest_time (init_monitor 0 1)))
   \<and> execute_speedtest_if_needed capped_monitor 100 example_env = (capped_monitor, None, False)
   \<and> 12 \<le> daily_tests_count capped_monitor
   \<and> execute_speedtest_if_needed (init_monitor 0 1) 0 (example_env\<lparr>speedtest := None\<rparr>) =
       (init_monitor 0 1, None, True)
   \<and> daily_tests_count (init_monitor 0 1) < 12"
proof -
  from speedtest_trigger_rule [OF execute_fresh]
  have a: "daily_tests_count (init_monitor 0 1) < 12
   \<and> (4 * 3600 < clock_probe example_env - last_speedtest_time (init_monitor 0 1)
        \<or> (50 < (0::real) \<and> 900 < clock_probe example_env - last_speedtest_time (init_monitor 0 1)))"
    by blast
  have cap: "12 \<le> daily_tests_count capped_monitor"
    by (simp add: capped_monitor_def)
  from speedtest_trigger_rule [OF execute_failing]
  have c: "daily_tests_count (init_monitor 0 1) < 12"
    by blast
  from execute_fresh a execute_capped cap execute_failing c show ?thesis by blast
qed

subsection \<open>Sessions\<close>

lemma analyze_returns: "\<exists>d. analyze sd (Some nd) h = Inr d"
proof -
  obtain m where m: "extract_metrics sd (Some nd) = Inr m"
    by (simp add: extract_metrics_def)
  obtain r c p where cap: "capped_likelihoods (raw_likelihoods m h) = (r, c, p)"
    by (cases "capped_likelihoods (raw_likelihoods m h)") auto
  show ?thesis
    by (simp add: analyze_Inr [OF m cap])
qed

lemma execute_frame:
  assumes "execute_speedtest_if_needed m psi env = (m', res, started)"
  shows "windows m' = windows m \<and> current_key m' = current_key m
    \<and> current_session m' = current_session m"
  using assms
  by (auto simp add: execute_speedtest_if_needed_def Let_def split: if_splits option.splits)

lemma process_window_frame:
  assumes "windows m key = Some w"
  shows "\<exists>m' obs. process_window m key d env = Inr (m', obs)
    \<and> current_key m' = current_key m \<and> current_session m' = current_session m
    \<and> dom (windows m') = dom (windows m)"
proof (cases "length w < MIN_SAMPLES")
  case True
  with assms show ?thesis by (simp add: process_window_def)
next
  case False
  define psi where "psi = calculate_simple_psi (Some (mean w))
     (case last_speed_result env of None \<Rightarrow> 0 | Some r \<Rightarrow> sr_download_mbps r)
     (case ping_res env of None \<Rightarrow> 0 | Some p \<Rightarrow> avg_rtt p)"
  obtain m1 sr started where ex: "execute_speedtest_if_needed m psi env = (m1, sr, started)"
    by (cases "execute_speedtest_if_needed m psi env") auto
  note fr = execute_frame [OF ex]
  from assms have k: "key \<in> dom (windows m)" by auto
  have "\<exists>obs. process_window m key d env = Inr (m1\<lparr>windows := (windows m1)(key \<mapsto> [])\<rparr>, obs)"
    using assms False ex [unfolded psi_def] analyze_returns
    by (simp add: process_window_def Let_def split: sum.splits) (metis Inl_Inr_False)
  with fr k show ?thesis by (auto simp add: insert_absorb)
qed

text \<open>
  Every tick keeps: a session, once a tick has completed, holds at least one sample, and
  the current key has a window.
\<close>

lemma session_rows_append:
  "session_rows (map SessionRow rows @ map Observation obs) = rows"
  by (induction rows) (simp_all add: session_rows_def)

lemma session_rows_obs: "session_rows (map Observation obs) = []"
  using session_rows_append [of "[]" obs] by simp

lemma session_rows_Nil: "session_rows [] = []"
  by (simp add: session_rows_def)

lemma session_rows_map: "session_rows (map SessionRow rows) = rows"
  using session_rows_append [of rows "[]"] by simp

lemma handle_context_change_ok:
  assumes "case current_session m of None \<Rightarrow> True | Some cs \<Rightarrow> 0 < sample_count cs"
  shows "\<exists>m' rows. handle_context_change m key d env = Inr (m', rows)
    \<and> current_key m' = Some key \<and> windows m' key \<noteq> None
    \<and> (\<exists>cs. current_session m' = Some cs \<and> sample_count cs = 0)
    \<and> (session_samples m = 0 \<longrightarrow> rows = [])"
  using assms
  by (cases "current_session m")
    (auto simp add: handle_context_change_def session_samples_def Let_def split: option.splits)

lemma update_session_counts:
  assumes "current_session m = Some cs"
  shows "\<exists>cs'. current_session (update_session m s d) = Some cs'
      \<and> sample_count cs' = sample_count cs + 1"
    and "current_key (update_session m s d) = current_key m"
    and "windows (update_session m s d) = windows m"
  using assms by (simp_all add: update_session_def)

lemma update_session_None:
  assumes "current_session m = None"
  shows "update_session m s d = m"
  using assms by (simp add: update_session_def)

lemma check_day_rollover_frame:
  "current_session (check_day_rollover m nd) = current_session m
   \<and> current_key (check_day_rollover m nd) = current_key m
   \<and> windows (check_day_rollover m nd) = windows m"
  by (simp add: check_day_rollover_def)

lemma session_inv_init: "session_inv (init_monitor clock day)"
  by (simp add: session_inv_def init_monitor_def)

lemma tick_session_inv:
  assumes inv: "session_inv m"
  shows "\<exists>m' out. tick m env = Inr (m', out) \<and> session_inv m'
    \<and> (session_samples m = 0 \<longrightarrow> session_rows out = [])"
proof (cases "data env")
  case None
  with inv show ?thesis by (simp add: tick_def session_rows_def)
next
  case (Some d)
  define m1 where "m1 = check_day_rollover m (today env)"
  obtain key s where ks: "get_key_and_score d = (key, s)"
    by (cases "get_key_and_score d") auto
  have fr1: "current_session m1 = current_session m" "current_key m1 = current_key m"
    "windows m1 = windows m"
    by (simp_all add: m1_def check_day_rollover_frame)
  have samples1: "session_samples m1 = session_samples m"
    by (simp add: session_samples_def fr1)
  from inv fr1 have sess1: "case current_session m1 of None \<Rightarrow> True | Some cs \<Rightarrow> 0 < sample_count cs"
    by (simp add: session_inv_def)
  have "\<exists>m2 rows. (if current_key m1 \<noteq> Some key then handle_context_change m1 key d env
                     else Inr (m1, [])) = Inr (m2, rows)
      \<and> current_key m2 = Some key \<and> windows m2 key \<noteq> None
      \<and> (session_samples m = 0 \<longrightarrow> rows = [])"
  proof (cases "current_key m1 = Some key")
    case True
    with inv fr1 show ?thesis by (auto simp add: session_inv_def split: option.splits)
  next
    case False
    with handle_context_change_ok [OF sess1, of key d env] samples1 show ?thesis
      by (auto split: option.splits)
  qed
  then obtain m2 rows where
    h2: "(if current_key m1 \<noteq> Some key then handle_context_change m1 key d env
          else Inr (m1, [])) = Inr (m2, rows)"
    and key2: "current_key m2 = Some key"
    and rows: "session_samples m = 0 \<longrightarrow> rows = []"
    and "windows m2 key \<noteq> None"
    by (elim exE conjE) simp
  then obtain w where w: "windows m2 key = Some w" by auto
  define m3 where "m3 = m2\<lparr>windows := (windows m2)(key \<mapsto> w @ [s])\<rparr>"
  define m4 where "m4 = update_session m3 s d"
  have sess4: "case current_session m4 of None \<Rightarrow> True | Some cs \<Rightarrow> 0 < sample_count cs"
  proof (cases "current_session m3")
    case None
    then show ?thesis by (simp add: m4_def update_session_None)
  next
    case (Some cs)
    from update_session_counts(1) [OF Some, of s d] show ?thesis
      by (auto simp add: m4_def)
  qed
  have key4: "current_key m4 = Some key" and win4: "windows m4 key = Some (w @ [s])"
    by (cases "current_session m3";
        simp add: m4_def m3_def key2 update_session_None update_session_counts)+
  have inv4: "session_inv m4"
    using sess4 key4 win4 by (simp add: session_inv_def)
  have unfold: "tick m env =
      (if WINDOW_SECONDS \<le> clock_gate env - last_change m4 then
         (case process_window m4 key d env of
            Inl e \<Rightarrow> Inl e
          | Inr (m5, obs) \<Rightarrow> Inr (m5, map SessionRow rows @ map Observation obs))
       else Inr (m4, map SessionRow rows))"
    using Some ks h2 w
    by (simp add: tick_def Let_def m1_def [symmetric] m3_def [symmetric] m4_def [symmetric])
  show ?thesis
  proof (cases "WINDOW_SECONDS \<le> clock_gate env - last_change m4")
    case False
    moreover from rows have "session_samples m = 0 \<longrightarrow> session_rows (map SessionRow rows) = []"
      by (simp add: session_rows_map session_rows_Nil)
    ultimately show ?thesis using unfold inv4 by simp
  next
    case True
    from process_window_frame [OF win4, of d env] obtain m5 obs where
      pw: "process_window m4 key d env = Inr (m5, obs)"
      and fr5: "current_key m5 = current_key m4" "current_session m5 = current_session m4"
        "dom (windows m5) = dom (windows m4)"
      by blast
    from win4 fr5(3) have "windows m5 key \<noteq> None" by (metis domIff option.distinct(1))
    with sess4 key4 fr5 have "session_inv m5" by (simp add: session_inv_def)
    moreover from rows
    have "session_samples m = 0 \<longrightarrow> session_rows (map SessionRow rows @ map Observation obs) = []"
      by (simp add: session_rows_append session_rows_obs)
    ultimately show ?thesis using unfold True pw by simp
  qed
qed

lemma reachable_session_inv: "reachable m \<Longrightarrow> session_inv m"
proof (induction rule: reachable.induct)
  case (start clock day)
  show ?case by (rule session_inv_init)
next
  case (step m env m' out)
  from tick_session_inv [OF step.IH, of env] step.hyps(2) show ?case by auto
qed

text \<open>
  The function itself has no guard for an empty session: called on one, it divides by
  zero. The invariant above is what keeps such a session from being finalized.
\<close>

lemma handle_context_change_empty_session:
  assumes "current_session m = Some cs" and "sample_count cs = 0"
  shows "handle_context_change m key d env = Inl ZeroDivisionError"
  using assms by (simp add: handle_context_change_def Let_def)

lemma example_key: "get_key_and_score (example_signal (Some 60)) = (''B3:101:7'', 60)"
  by (simp add: get_key_and_score_def example_signal_def)

lemma tick_key_change:
  assumes "data env = Some d"
    and "get_key_and_score d = (key, s)"
    and "m1 = check_day_rollover m (today env)"
    and "current_key m1 \<noteq> Some key"
    and "handle_context_change m1 key d env = Inr (m2, rows)"
    and "windows m2 key = Some w"
    and "m4 = update_session (m2\<lparr>windows := (windows m2)(key \<mapsto> w @ [s])\<rparr>) s d"
    and "\<not> WINDOW_SECONDS \<le> clock_gate env - last_change m4"
  shows "tick m env = Inr (m4, map SessionRow rows)"
  using assms by (simp add: tick_def Let_def)

lemma tick_first: "tick (init_monitor 0 1) example_env = Inr (after_first_tick, [])"
proof -
  define m2 where "m2 =
     \<lparr>windows = [''B3:101:7'' \<mapsto> []], current_key = Some ''B3:101:7'',
      last_change = 20000, last_speedtest_time = 0, daily_tests_count = 0, current_day = 1,
      current_session = Some
        \<lparr>start_time = 20000, s_band = ''B3'', s_pci = ''101'', s_enodeb = ''7'',
         total_score = 0, total_sinr = 0, total_rsrq = 0, total_rsrp = 0,
         sample_count = 0\<rparr>\<rparr>"
  have d: "data example_env = Some (example_signal (Some 60))"
    by (simp add: example_env_def)
  have r: "init_monitor 0 1 = check_day_rollover (init_monitor 0 1) (today example_env)"
    by (simp add: check_day_rollover_def init_monitor_def example_env_def)
  have k: "current_key (init_monitor 0 1) \<noteq> Some ''B3:101:7''"
    by (simp add: init_monitor_def)
  have h: "handle_context_change (init_monitor 0 1) ''B3:101:7'' (example_signal (Some 60)) example_env =
     Inr (m2, [])"
    by (simp add: handle_context_change_def init_monitor_def example_env_def example_signal_def
        m2_def)
  have w: "windows m2 ''B3:101:7'' = Some []"
    by (simp add: m2_def)
  have u: "after_first_tick =
      update_session (m2\<lparr>windows := (windows m2)(''B3:101:7'' \<mapsto> [] @ [60])\<rparr>) 60
        (example_signal (Some 60))"
    by (simp add: update_session_def m2_def example_signal_def after_first_tick_def)
  have g: "\<not> WINDOW_SECONDS \<le> clock_gate example_env - last_change after_first_tick"
    by (simp add: WINDOW_SECONDS_def example_env_def after_first_tick_def)
  from tick_key_change [OF d example_key r k h w u g] show ?thesis by simp
qed

lemma reachable_after_first_tick: "reachable after_first_tick"
  by (rule reachable.step [OF reachable.start tick_first])

text \<open>
  Claim C9: in every state reachable through ticks, a tick completes without error, and
  so does \<^verbatim>\<open>handle_context_change\<close> for any new key, so its averaging never divides
  by zero; when the session to finalize has no samples no session row is emitted. A
  reachable state with no samples is one with no session: a session receives its first
  sample in the tick that creates it.
\<close>

theorem finalization_safe:
  assumes "reachable m"
  shows "(\<exists>m' out. tick m env = Inr (m', out)
            \<and> (session_samples m = 0 \<longrightarrow> session_rows out = []))
    \<and> (\<exists>m' rows. handle_context_change m key d env = Inr (m', rows)
            \<and> (session_samples m = 0 \<longrightarrow> rows = []))
    \<and> (session_samples m = 0 \<longrightarrow> current_session m = None)"
proof -
  from assms have inv: "session_inv m" by (rule reachable_session_inv)
  then have sess: "case current_session m of None \<Rightarrow> True | Some cs \<Rightarrow> 0 < sample_count cs"
    by (simp add: session_inv_def)
  from tick_session_inv [OF inv, of env]
  have 1: "\<exists>m' out. tick m env = Inr (m', out)
            \<and> (session_samples m = 0 \<longrightarrow> session_rows out = [])"
    by auto
  from handle_context_change_ok [OF sess, of key d env]
  have 2: "\<exists>m' rows. handle_context_change m key d env = Inr (m', rows)
            \<and> (session_samples m = 0 \<longrightarrow> rows = [])"
    by auto
  from sess have 3: "session_samples m = 0 \<longrightarrow> current_session m = None"
    by (auto simp add: session_samples_def split: option.splits)
  from 1 2 3 show ?thesis by blast
qed

theorem finalization_safe_witness:
  "reachable (init_monitor 0 1) \<and> session_samples (init_monitor 0 1) = 0
   \<and> (\<exists>m' out. tick (init_monitor 0 1) example_env = Inr (m', out) \<and> session_rows out = [])
   \<and> reachable after_first_tick
   \<and> (\<exists>m' rows. handle_context_change after_first_tick ''NETWORK_ONLY''
                    (example_signal None) example_env = Inr (m', rows))"
proof -
  have r0: "reachable (init_monitor 0 1)" by (rule reachable.start)
  have z: "session_samples (init_monitor 0 1) = 0"
    by (simp add: session_samples_def init_monitor_def)
  from finalization_safe [OF r0, of example_env] z
  have a: "\<exists>m' out. tick (init_monitor 0 1) example_env = Inr (m', out) \<and> session_rows out = []"
    by blast
  from finalization_safe [OF reachable_after_first_tick, of example_env "''NETWORK_ONLY''" "example_signal None"]
  have b: "\<exists>m' rows. handle_context_change after_first_tick ''NETWORK_ONLY''
                    (example_signal None) example_env = Inr (m', rows)"
    by blast
  from r0 z a reachable_after_first_tick b show ?thesis by blast
qed

section \<open>History analysis: proofs\<close>

lemma recent_within_month:
  assumes "nw - 7 * 24 * 3600 < dt"
  shows "td_days nw dt \<le> 30"
proof -
  from assms have "(nw - dt) / 86400 < 7" by simp
  then have "\<lfloor>(nw - dt) / 86400\<rfloor> < 7" by linarith
  then show ?thesis by (simp add: td_days_def)
qed

lemma process_row_score:
  assumes "row_verdict r = Some v"
  shows "\<exists>p. process_row r nw (hour_of nw) (nw - 7 * 24 * 3600) = Inr p
           \<and> res_score p = same_hour_sample nw r"
proof (cases "timestamp r")
  case NoStamp
  then show ?thesis by (simp add: process_row_def same_hour_sample_def)
next
  case BadStamp
  then show ?thesis by (simp add: process_row_def same_hour_sample_def)
next
  case (Stamp dt)
  show ?thesis
  proof (cases "nw - 7 * 24 * 3600 < dt")
    case True
    then have "td_days nw dt \<le> 30" by (rule recent_within_month)
    with True Stamp assms show ?thesis
      by (cases "data_bytes r"; cases "avg_score r")
        (simp_all add: process_row_def same_hour_sample_def Let_def)
  next
    case False
    with Stamp assms show ?thesis
      by (cases "data_bytes r")
        (simp_all add: process_row_def same_hour_sample_def Let_def)
  qed
qed

lemma scan_rows_scores:
  assumes "\<forall>r\<in>set rows. row_verdict r \<noteq> None"
  shows "\<exists>pcount' mbytes'. scan_rows nw rows (hs, pcount, mbytes) =
           Inr (hs @ same_hour_scores nw rows, pcount', mbytes')"
  using assms
proof (induction rows arbitrary: hs pcount mbytes)
  case Nil
  then show ?case by (simp add: same_hour_scores_def)
next
  case (Cons r rows)
  from Cons.prems obtain v where v: "row_verdict r = Some v" by auto
  from process_row_score [OF v, of nw] obtain p where
    p: "process_row r nw (hour_of nw) (nw - 7 * 24 * 3600) = Inr p"
    and sc: "res_score p = same_hour_sample nw r"
    by blast
  from Cons.prems have rest: "\<forall>r\<in>set rows. row_verdict r \<noteq> None" by simp
  show ?case
  proof (cases "same_hour_sample nw r")
    case None
    with p sc Cons.IH [OF rest, of hs] show ?thesis
      by (simp add: same_hour_scores_def)
  next
    case (Some x)
    with p sc Cons.IH [OF rest, of "hs @ [x]"] show ?thesis
      by (simp add: same_hour_scores_def)
  qed
qed

lemma get_history_analysis_stable:
  assumes "\<forall>r\<in>set rows. row_verdict r \<noteq> None"
  shows "is_stable_hour (get_history_analysis (Rows rows) nw) \<longleftrightarrow>
           5 < length (same_hour_scores nw rows) \<and> pstdev (same_hour_scores nw rows) < 10"
proof -
  from scan_rows_scores [OF assms, of nw "[]" 0 0] obtain pc mb where
    "scan_rows nw rows ([], 0, 0) = Inr (same_hour_scores nw rows, pc, mb)"
    by auto
  then show ?thesis by (simp add: get_history_analysis_def)
qed

text \<open>
  Claim C8, as the code has it: for a log whose rows all have a verdict cell,
  \<^verbatim>\<open>is_stable_hour\<close> is true if and only if more than 5, that is at least 6,
  same-hour score samples exist within the last 7 days and their population standard
  deviation is below 10; a missing or unreadable log gives the neutral context (not
  stable, policy count 0, 0 bytes).
\<close>

theorem is_stable_hour_rule:
  assumes "\<forall>r\<in>set rows. row_verdict r \<noteq> None"
  shows "(is_stable_hour (get_history_analysis (Rows rows) nw) \<longleftrightarrow>
            6 \<le> length (same_hour_scores nw rows)
            \<and> pstdev (same_hour_scores nw rows) < 10)
    \<and> get_history_analysis Missing nw =
         \<lparr>is_stable_hour = False, policy_count = 0, monthly_bytes = 0\<rparr>
    \<and> get_history_analysis Unreadable nw =
         \<lparr>is_stable_hour = False, policy_count = 0, monthly_bytes = 0\<rparr>"
proof -
  have "(5 < length (same_hour_scores nw rows)) = (6 \<le> length (same_hour_scores nw rows))"
    by linarith
  with get_history_analysis_stable [OF assms, of nw] show ?thesis
    by (simp add: get_history_analysis_def neutral_history_def)
qed

text \<open>
  A row cut short before its verdict cell, if recent, makes the whole analysis fall back
  to the neutral context: the AttributeError passes the handler of \<^verbatim>\<open>_process_row\<close>
  and is caught by the one of \<^verbatim>\<open>get_history_analysis\<close>.
\<close>

lemma scan_rows_abort:
  "process_row r nw (hour_of nw) (nw - 7 * 24 * 3600) = Inl e \<Longrightarrow>
   get_history_analysis (Rows (r # rows)) nw = neutral_history"
  by (simp add: get_history_analysis_def)

lemma same_hour_row_sample: "same_hour_sample 1000000 same_hour_row = Some 50"
proof -
  have "hour_of 913600 = 13" "hour_of 1000000 = 13"
    by (simp_all add: hour_of_def)
  then show ?thesis
    by (simp add: same_hour_sample_def same_hour_row_def)
qed

lemma five_rows_scores: "same_hour_scores 1000000 five_rows = [50, 50, 50, 50, 50]"
  by (simp add: same_hour_scores_def five_rows_def same_hour_row_sample)

lemma six_rows_scores: "same_hour_scores 1000000 six_rows = [50, 50, 50, 50, 50, 50]"
  using five_rows_scores
  by (simp add: same_hour_scores_def six_rows_def same_hour_row_sample)

lemma pstdev_five: "pstdev [50, 50, 50, 50, 50] = 0"
  by (simp add: pstdev_def sq_dev_def mean_def)

lemma pstdev_six: "pstdev [50, 50, 50, 50, 50, 50] = 0"
  by (simp add: pstdev_def sq_dev_def mean_def)

lemma rows_have_verdict:
  "\<forall>r\<in>set five_rows. row_verdict r \<noteq> None" "\<forall>r\<in>set six_rows. row_verdict r \<noteq> None"
  by (simp_all add: six_rows_def five_rows_def same_hour_row_def)

text \<open>
  Claim C8 as stated fails at exactly five samples: five same-hour scores of 50 within
  the last 7 days have standard deviation 0, and the hour is not reported stable.
\<close>

theorem five_samples_not_stable:
  "5 \<le> length (same_hour_scores 1000000 five_rows)
   \<and> pstdev (same_hour_scores 1000000 five_rows) < 10
   \<and> \<not> is_stable_hour (get_history_analysis (Rows five_rows) 1000000)"
  using get_history_analysis_stable [OF rows_have_verdict(1), of 1000000]
  by (simp add: five_rows_scores pstdev_five)

theorem is_stable_hour_rule_witness:
  "6 \<le> length (same_hour_scores 1000000 six_rows)
   \<and> pstdev (same_hour_scores 1000000 six_rows) < 10
   \<and> is_stable_hour (get_history_analysis (Rows six_rows) 1000000)"
proof -
  have l: "6 \<le> length (same_hour_scores 1000000 six_rows)"
    by (simp add: six_rows_scores)
  have p: "pstdev (same_hour_scores 1000000 six_rows) < 10"
    by (simp add: six_rows_scores pstdev_six)
  from is_stable_hour_rule [OF rows_have_verdict(2), of 1000000] l p
  have "is_stable_hour (get_history_analysis (Rows six_rows) 1000000)"
    by blast
  with l p show ?thesis by blast
qed

end
